theory Spec2Isabelle
  imports Main "HOL-Library.AList"
begin

section \<open>Exceptions\<close>

text \<open>
  The exceptions that the modelled code can raise itself (\<open>NameError\<close> from reading a name
  that is not bound, \<open>ValueError\<close> from \<open>min\<close> of an empty sequence, \<open>AttributeError\<close> from
  reading a missing attribute), two exceptions of the specification's taxonomy, which no
  line of the code raises, and any exception raised inside a library, named by its class.
\<close>

datatype py_error =
    NameError string
  | ValueError
  | AttributeError
  | ConfigError
  | InvalidStateError
  | LibraryError string

section \<open>The compiled-graph cache of the img2img pipeline\<close>

text \<open>
  Source: \<open>pipeline_stable_diffusion_img2img_oneflow.py\<close>, class
  \<open>OneFlowStableDiffusionImg2ImgPipeline\<close>.

  The cache is the dict \<open>self.unet_graphs\<close>, from a shape \<open>(height, width)\<close> to a pair
  \<open>(last access time, compiled graph)\<close>. A Python dict iterates in insertion order, assigning
  to a present key keeps its position, and assigning to an absent key appends: this is an
  association list with \<open>AList.update\<close>, and \<open>del d[k]\<close> is \<open>AList.delete\<close>.

  The lines that the code prints are kept, in order, in the field \<open>printed\<close>; the elapsed
  time of the compilation message is a wall-clock reading and is left out of the message.
\<close>

type_synonym shape = "int \<times> int"

datatype msg =
    MsgDeleted int int
  | MsgCacheSizeHint
  | MsgCompiling
  | MsgElapsedCompilation

record 'g pipeline =
  unet_graphs :: "(shape \<times> (int \<times> 'g)) list"
  unet_graphs_cache_size :: int
  unet_graphs_lru_cache_time :: int
  printed :: "msg list"

text \<open>\<open>__init__\<close>, lines 89-91: an empty cache, capacity 1, clock 0.\<close>

definition pipeline_init :: "'g pipeline" where
  "pipeline_init =
     \<lparr> unet_graphs = [], unet_graphs_cache_size = 1, unet_graphs_lru_cache_time = 0,
       printed = [] \<rparr>"

text \<open>
  \<open>set_unet_graphs_cache_size\<close>, line 130: a plain assignment. The method has no \<open>raise\<close>,
  so the result is always \<open>Inr\<close>.
\<close>

definition set_unet_graphs_cache_size :: "'g pipeline \<Rightarrow> int \<Rightarrow> py_error + 'g pipeline" where
  "set_unet_graphs_cache_size self cache_size =
     Inr (self\<lparr>unet_graphs_cache_size := cache_size\<rparr>)"

text \<open>
  Python's \<open>min(xs, key=f)\<close>: the first element whose key is minimal (the running best is
  replaced only by a strictly smaller key); \<open>ValueError\<close> on an empty sequence.
\<close>

fun py_min_from :: "('a \<Rightarrow> int) \<Rightarrow> 'a \<Rightarrow> 'a list \<Rightarrow> 'a" where
  "py_min_from f best [] = best"
| "py_min_from f best (x # xs) = py_min_from f (if f x < f best then x else best) xs"

definition py_min :: "('a \<Rightarrow> int) \<Rightarrow> 'a list \<Rightarrow> py_error + 'a" where
  "py_min f xs = (case xs of [] \<Rightarrow> Inl ValueError | x # rest \<Rightarrow> Inr (py_min_from f x rest))"

text \<open>
  The key function of line 281, \<open>lambda shape: self.unet_graphs[shape][0]\<close>. It is only
  applied to keys of the dict, so the lookup cannot miss there; the model returns 0 on a
  miss to stay total.
\<close>

definition lru_time :: "'g pipeline \<Rightarrow> shape \<Rightarrow> int" where
  "lru_time self shape = (case map_of (unet_graphs self) shape of Some (t, _) \<Rightarrow> t | None \<Rightarrow> 0)"

text \<open>
  The \<open>while\<close> loop of lines 280-285: as long as the cache holds at least
  \<open>unet_graphs_cache_size\<close> entries, delete the entry with the least access time and print
  two lines. When the cache is empty and the capacity is not positive, \<open>min\<close> raises
  \<open>ValueError\<close>, which leaves the loop (and \<open>__call__\<close>) with the state reached so far.
\<close>

function evict_lru :: "'g pipeline \<Rightarrow> 'g pipeline \<times> py_error option" where
  "evict_lru self =
     (if int (length (unet_graphs self)) \<ge> unet_graphs_cache_size self then
        (case py_min (lru_time self) (map fst (unet_graphs self)) of
           Inl e \<Rightarrow> (self, Some e)
         | Inr shape_to_del \<Rightarrow>
             evict_lru (self\<lparr>
               printed := printed self @
                 [MsgDeleted (fst shape_to_del) (snd shape_to_del), MsgCacheSizeHint],
               unet_graphs := AList.delete shape_to_del (unet_graphs self)\<rparr>))
      else (self, None))"
  by pat_completeness auto
termination
proof (relation "measure (\<lambda>self. length (unet_graphs self))")
  show "wf (measure (\<lambda>self::'g pipeline. length (unet_graphs self)))"
    by simp
next
  fix self :: "'g pipeline" and k
  assume found: "py_min (lru_time self) (map fst (unet_graphs self)) = Inr k"
  have from_mem: "py_min_from f b xs \<in> insert b (set xs)"
    for f :: "shape \<Rightarrow> int" and b xs
    by (induction xs arbitrary: b) auto
  have shorter: "j \<in> fst ` set al \<Longrightarrow> length (AList.delete j al) < length al"
    for j :: shape and al :: "(shape \<times> (int \<times> 'g)) list"
  proof (induction al)
    case Nil
    then show ?case by simp
  next
    case (Cons p al)
    show ?case
    proof (cases "fst p = j")
      case True
      have "length (AList.delete j al) \<le> length al"
        by (rule AList.length_delete_le)
      with True show ?thesis by (cases p) simp
    next
      case False
      with Cons.prems have "j \<in> fst ` set al" by auto
      from Cons.IH [OF this] False show ?thesis by (cases p) simp
    qed
  qed
  have "k \<in> set (map fst (unet_graphs self))"
  proof (cases "map fst (unet_graphs self)")
    case Nil
    with found show ?thesis by (simp add: py_min_def)
  next
    case (Cons x rest)
    with found have "k = py_min_from (lru_time self) x rest"
      by (simp add: py_min_def)
    with from_mem [of "lru_time self" x rest] Cons show ?thesis by simp
  qed
  then have "k \<in> fst ` set (unet_graphs self)"
    by simp
  then show "(self\<lparr>printed := printed self @ [MsgDeleted (fst k) (snd k), MsgCacheSizeHint],
                  unet_graphs := AList.delete k (unet_graphs self)\<rparr>, self)
             \<in> measure (\<lambda>self. length (unet_graphs self))"
    by (simp add: shorter)
qed

text \<open>
  The names that lines 272-294 of \<open>__call__\<close> read and that are neither parameters nor
  local variables assigned before their use: \<open>timer\<close> (lines 272 and 292), \<open>height\<close> and
  \<open>width\<close> (lines 276-294). An environment says which of them the module binds, and to
  what.
\<close>

record name_env =
  timer_defined :: bool
  height_value :: "int option"
  width_value :: "int option"

text \<open>
  The environment of the file as it is. Its module-level names are the imports
  (\<open>inspect\<close>, \<open>warnings\<close>, \<open>List\<close>, \<open>Optional\<close>, \<open>Union\<close>, \<open>np\<close>, \<open>torch\<close>, \<open>PIL\<close>,
  \<open>CLIPFeatureExtractor\<close>, \<open>CLIPTokenizer\<close>, \<open>CLIPTextModel\<close>, \<open>FrozenDict\<close>, \<open>AutoencoderKL\<close>,
  \<open>UNet2DConditionModel\<close>, \<open>DiffusionPipeline\<close>, \<open>DDIMScheduler\<close>, \<open>PNDMScheduler\<close>,
  \<open>LMSDiscreteScheduler\<close>, \<open>StableDiffusionPipelineOutput\<close>, \<open>StableDiffusionSafetyChecker\<close>,
  \<open>os\<close>, \<open>flow\<close>) and the definitions \<open>preprocess\<close>, \<open>UNetGraph\<close> and
  \<open>OneFlowStableDiffusionImg2ImgPipeline\<close>; the parameters of \<open>__call__\<close> are \<open>self\<close>,
  \<open>prompt\<close>, \<open>init_image\<close>, \<open>strength\<close>, \<open>num_inference_steps\<close>, \<open>guidance_scale\<close>, \<open>eta\<close>,
  \<open>generator\<close>, \<open>output_type\<close>, \<open>return_dict\<close> and \<open>compile_unet\<close>. None of the three names
  is among them, is assigned in \<open>__call__\<close>, or is a Python builtin.
\<close>

definition source_env :: name_env where
  "source_env = \<lparr> timer_defined = False, height_value = None, width_value = None \<rparr>"

text \<open>
  An environment in which \<open>timer\<close> is bound and \<open>height\<close> and \<open>width\<close> are bound to the
  components of a shape: what the lines would see if the file bound the names.
\<close>

definition names_bound :: "shape \<Rightarrow> name_env" where
  "names_bound hw =
     \<lparr> timer_defined = True, height_value = Some (fst hw), width_value = Some (snd hw) \<rparr>"

text \<open>
  Lines 272-294 of \<open>__call__\<close> in a given environment. Line 272 calls \<open>timer\<close> whatever
  \<open>compile_unet\<close> is; line 275 advances the clock before line 276 reads \<open>height\<close> and then
  \<open>width\<close>. \<open>build\<close> stands for lines 287-291, which take the first timestep, construct a
  \<open>UNetGraph\<close> over \<open>self.unet\<close>, compile it and run it once on the sample input: library
  calls, which return the graph or raise, after the evictions of lines 280-285 and the
  message of line 286 and before the insertion of line 294. The result is the new state
  together with the value of the local \<open>unet_graph\<close> (\<open>None\<close> when \<open>compile_unet\<close> is false
  and the name stays unbound), or the exception that ended the call.
\<close>

definition call_cache_section ::
  "name_env \<Rightarrow> (shape \<Rightarrow> py_error + 'g) \<Rightarrow> 'g pipeline \<Rightarrow> bool \<Rightarrow>
     'g pipeline \<times> (py_error + 'g option)" where
  "call_cache_section env build self compile_unet =
     (if \<not> timer_defined env then (self, Inl (NameError ''timer''))
      else if compile_unet then
        (let s1 = self\<lparr>unet_graphs_lru_cache_time := unet_graphs_lru_cache_time self + 1\<rparr> in
         case height_value env of
           None \<Rightarrow> (s1, Inl (NameError ''height''))
         | Some height \<Rightarrow>
             (case width_value env of
                None \<Rightarrow> (s1, Inl (NameError ''width''))
              | Some width \<Rightarrow>
                  (case map_of (unet_graphs s1) (height, width) of
                     Some (_, unet_graph) \<Rightarrow>
                       (s1\<lparr>unet_graphs :=
                             AList.update (height, width)
                               (unet_graphs_lru_cache_time s1, unet_graph) (unet_graphs s1)\<rparr>,
                        Inr (Some unet_graph))
                   | None \<Rightarrow>
                       (case evict_lru s1 of
                          (s2, Some e) \<Rightarrow> (s2, Inl e)
                        | (s2, None) \<Rightarrow>
                            (let s3 = s2\<lparr>printed := printed s2 @ [MsgCompiling]\<rparr> in
                             case build (height, width) of
                               Inl e \<Rightarrow> (s3, Inl e)
                             | Inr unet_graph \<Rightarrow>
                                 (s3\<lparr>printed := printed s3 @ [MsgElapsedCompilation],
                                     unet_graphs :=
                                       AList.update (height, width)
                                         (unet_graphs_lru_cache_time s3, unet_graph)
                                         (unet_graphs s3)\<rparr>,
                                  Inr (Some unet_graph)))))))
      else (self, Inr None))"

text \<open>
  \<open>__call__\<close> up to line 294. \<open>earlier\<close> is the exception, if any, that lines 192-271 raise
  (the \<open>ValueError\<close> of line 197 or 200 for a prompt or a strength that is refused, or an
  exception of a library call); when they return, lines 272-294 run in the environment of
  the file. The lines after 294 do not touch the cache.
\<close>

definition pipeline_call ::
  "(shape \<Rightarrow> py_error + 'g) \<Rightarrow> 'g pipeline \<Rightarrow> py_error option \<Rightarrow> bool \<Rightarrow>
     'g pipeline \<times> (py_error + 'g option)" where
  "pipeline_call build self earlier compile_unet =
     (case earlier of
        Some e \<Rightarrow> (self, Inl e)
      | None \<Rightarrow> call_cache_section source_env build self compile_unet)"

text \<open>
  A caller that invokes the pipeline once per element of a list of \<open>compile_unet\<close> flags,
  with earlier lines that return. \<open>pipeline_calls\<close> stops at the first exception, as a
  script would; \<open>pipeline_calls_catching\<close> catches every exception and goes on, and returns
  the state after the last invocation.
\<close>

fun pipeline_calls ::
  "(shape \<Rightarrow> py_error + 'g) \<Rightarrow> 'g pipeline \<Rightarrow> bool list \<Rightarrow> py_error + 'g pipeline" where
  "pipeline_calls build self [] = Inr self"
| "pipeline_calls build self (compile_unet # rest) =
     (case pipeline_call build self None compile_unet of
        (s', Inl e) \<Rightarrow> Inl e
      | (s', Inr _) \<Rightarrow> pipeline_calls build s' rest)"

fun pipeline_calls_catching ::
  "(shape \<Rightarrow> py_error + 'g) \<Rightarrow> 'g pipeline \<Rightarrow> bool list \<Rightarrow> 'g pipeline" where
  "pipeline_calls_catching build self [] = self"
| "pipeline_calls_catching build self (compile_unet # rest) =
     pipeline_calls_catching build (fst (pipeline_call build self None compile_unet)) rest"

text \<open>
  The same caller for the lines 272-294 in an environment that binds the names, one shape
  per invocation, with \<open>compile_unet=True\<close>.
\<close>

fun cache_section_calls ::
  "(shape \<Rightarrow> py_error + 'g) \<Rightarrow> 'g pipeline \<Rightarrow> shape list \<Rightarrow> py_error + 'g pipeline" where
  "cache_section_calls build self [] = Inr self"
| "cache_section_calls build self (hw # rest) =
     (case call_cache_section (names_bound hw) build self True of
        (s', Inl e) \<Rightarrow> Inl e
      | (s', Inr _) \<Rightarrow> cache_section_calls build s' rest)"

text \<open>The shapes whose deletion was printed, in the order of the messages.\<close>

fun deleted_shapes :: "msg list \<Rightarrow> shape list" where
  "deleted_shapes [] = []"
| "deleted_shapes (MsgDeleted h w # ms) = (h, w) # deleted_shapes ms"
| "deleted_shapes (_ # ms) = deleted_shapes ms"

text \<open>How many times lines 287-291 were entered: once per message of line 286.\<close>

definition compilations :: "msg list \<Rightarrow> nat" where
  "compilations ms = length (filter (\<lambda>m. m = MsgCompiling) ms)"

section \<open>The tensor bridge and the deployable module\<close>

text \<open>
  Source: \<open>with_oneflow_compile.py\<close>.

  A leaf of an argument structure is a torch tensor, a oneflow tensor, \<open>None\<close>, or any other
  Python value. The tensors are opaque payloads (dtype, shape and data together): the code
  never looks inside one.
\<close>

datatype ('t, 'f, 'o) py_value =
    is_torch: TorchTensor 't
  | is_flow: FlowTensor 'f
  | PyNone
  | Other 'o

datatype 'v args_tree =
    Leaf 'v
  | PyTuple "'v args_tree list"
  | PyList "'v args_tree list"
  | PyDict "(string \<times> 'v args_tree) list"

text \<open>
  Modelled from the spec: \<open>ArgsTree.map_leaf\<close> belongs to the oneflow library, whose source
  is not part of the repository. The specification describes the traversal as recursive
  over sequences and mappings, applying the function to every leaf and keeping the nesting,
  the key sets and the order.
\<close>

fun map_leaf :: "('a \<Rightarrow> 'b) \<Rightarrow> 'a args_tree \<Rightarrow> 'b args_tree" where
  "map_leaf f (Leaf v) = Leaf (f v)"
| "map_leaf f (PyTuple xs) = PyTuple (map (map_leaf f) xs)"
| "map_leaf f (PyList xs) = PyList (map (map_leaf f) xs)"
| "map_leaf f (PyDict items) = PyDict (map (\<lambda>(k, v). (k, map_leaf f v)) items)"

text \<open>The nesting, keys and order of a structure: the structure with its leaves erased.\<close>

definition tree_shape :: "'a args_tree \<Rightarrow> unit args_tree" where
  "tree_shape t = map_leaf (\<lambda>_. ()) t"

text \<open>
  \<open>input_fn\<close> and \<open>output_fn\<close>, lines 58-68. The library conversions
  \<open>flow.utils.tensor.from_torch\<close> and \<open>to_torch\<close> are parameters.
\<close>

definition input_fn :: "('t \<Rightarrow> 'f) \<Rightarrow> ('t, 'f, 'o) py_value \<Rightarrow> ('t, 'f, 'o) py_value" where
  "input_fn from_torch v = (case v of TorchTensor t \<Rightarrow> FlowTensor (from_torch t) | _ \<Rightarrow> v)"

definition output_fn :: "('f \<Rightarrow> 't) \<Rightarrow> ('t, 'f, 'o) py_value \<Rightarrow> ('t, 'f, 'o) py_value" where
  "output_fn to_torch v = (case v of FlowTensor f \<Rightarrow> TorchTensor (to_torch f) | _ \<Rightarrow> v)"

text \<open>
  Modelled from the spec: \<open>flow.utils.tensor.from_torch\<close> and \<open>to_torch\<close> belong to the
  oneflow library, whose source is not part of the repository. The specification says that
  a tensor of one framework is converted to the other framework's equivalent, sharing the
  underlying memory without a copy. A tensor is therefore a dtype, a shape and the bytes of
  its buffer, and the converted tensor has the dtype, the shape and the bytes of the
  original.
\<close>

datatype dtype = Float16 | Float32 | Float64 | Int32 | Int64 | Bool

record torch_tensor =
  torch_dtype :: dtype
  torch_shape :: "nat list"
  torch_bytes :: "nat list"

record flow_tensor =
  flow_dtype :: dtype
  flow_shape :: "nat list"
  flow_bytes :: "nat list"

definition from_torch_spec :: "torch_tensor \<Rightarrow> flow_tensor" where
  "from_torch_spec t =
     \<lparr> flow_dtype = torch_dtype t, flow_shape = torch_shape t, flow_bytes = torch_bytes t \<rparr>"

definition to_torch_spec :: "flow_tensor \<Rightarrow> torch_tensor" where
  "to_torch_spec f =
     \<lparr> torch_dtype = flow_dtype f, torch_shape = flow_shape f, torch_bytes = flow_bytes f \<rparr>"

text \<open>
  A method takes positional arguments and keyword arguments and returns a structure or
  raises.
\<close>

type_synonym 'v py_method =
  "'v args_tree list \<Rightarrow> (string \<times> 'v args_tree) list \<Rightarrow> py_error + 'v args_tree"

text \<open>
  The module that \<open>torch2of\<close> returns, as far as the code looks at it: the \<open>__call__\<close> and
  \<open>apply_model\<close> that \<open>super()\<close> finds in its class, if the class (or a base class) defines
  them. \<open>hasattr(super(), name)\<close> is true exactly when the field is not \<open>None\<close>.
\<close>

record 'v of_module =
  cls_call :: "'v py_method option"
  cls_apply_model :: "'v py_method option"

text \<open>
  \<open>UNetGraph\<close> of \<open>get_unet_graph(size)\<close>, lines 8-46: the dynamic-shape bound of the
  decorator, the wrapped module, and the runtime state that the library keeps for the
  graph (none for a graph that was only constructed). The constructor also sets
  environment variables of the process, which no other line of the file reads; they are
  left out.
\<close>

record ('v, 'sd) unet_graph =
  dyn_size :: int
  unet :: "'v of_module"
  runtime_state :: "'sd option"

definition UNetGraph_init :: "int \<Rightarrow> 'v of_module \<Rightarrow> ('v, 'sd) unet_graph" where
  "UNetGraph_init size' unet' = \<lparr> dyn_size = size', unet = unet', runtime_state = None \<rparr>"

text \<open>
  The oneflow library as the code calls it, taken as a parameter: the tensor conversions,
  the execution of a graph (\<open>nn.Graph.__call__\<close>), \<open>runtime_state_dict\<close>,
  \<open>load_runtime_state_dict\<close>, \<open>runtime_state_dict_to\<close>, and \<open>flow.load\<close> and \<open>flow.save\<close> over a
  file system \<open>'fs\<close>. Each of them may raise.
\<close>

record ('t, 'f, 'o, 'sd, 'dev, 'fs) oneflow =
  from_torch :: "'t \<Rightarrow> 'f"
  to_torch :: "'f \<Rightarrow> 't"
  graph_call :: "(('t, 'f, 'o) py_value, 'sd) unet_graph \<Rightarrow> ('t, 'f, 'o) py_value py_method"
  runtime_state_dict :: "(('t, 'f, 'o) py_value, 'sd) unet_graph \<Rightarrow> py_error + 'sd"
  load_runtime_state_dict ::
    "(('t, 'f, 'o) py_value, 'sd) unet_graph \<Rightarrow> 'sd \<Rightarrow>
       py_error + (('t, 'f, 'o) py_value, 'sd) unet_graph"
  runtime_state_dict_to :: "'sd \<Rightarrow> 'dev \<Rightarrow> py_error + 'sd"
  flow_load :: "'fs \<Rightarrow> string \<Rightarrow> py_error + 'sd"
  flow_save :: "'fs \<Rightarrow> 'sd \<Rightarrow> string \<Rightarrow> py_error + 'fs"

text \<open>\<open>UNetGraph.warmup_with_load\<close>, lines 38-42.\<close>

definition UNetGraph_warmup_with_load ::
  "('t, 'f, 'o, 'sd, 'dev, 'fs) oneflow \<Rightarrow> (('t, 'f, 'o) py_value, 'sd) unet_graph \<Rightarrow> 'fs \<Rightarrow>
     string \<Rightarrow> 'dev option \<Rightarrow> py_error + (('t, 'f, 'o) py_value, 'sd) unet_graph" where
  "UNetGraph_warmup_with_load lib self fs file_path device =
     (case flow_load lib fs file_path of
        Inl e \<Rightarrow> Inl e
      | Inr state_dict \<Rightarrow>
          (case (case device of
                   None \<Rightarrow> Inr state_dict
                 | Some d \<Rightarrow> runtime_state_dict_to lib state_dict d) of
             Inl e \<Rightarrow> Inl e
           | Inr state_dict' \<Rightarrow> load_runtime_state_dict lib self state_dict'))"

text \<open>\<open>UNetGraph.save_graph\<close>, lines 44-46. There is no test of the graph's state.\<close>

definition UNetGraph_save_graph ::
  "('t, 'f, 'o, 'sd, 'dev, 'fs) oneflow \<Rightarrow> (('t, 'f, 'o) py_value, 'sd) unet_graph \<Rightarrow> 'fs \<Rightarrow>
     string \<Rightarrow> py_error + 'fs" where
  "UNetGraph_save_graph lib self fs file_path =
     (case runtime_state_dict lib self of
        Inl e \<Rightarrow> Inl e
      | Inr state_dict \<Rightarrow> flow_save lib fs state_dict file_path)"

text \<open>
  An instance of \<open>DeplayableModule\<close> (the class name is the source's): the converted module
  whose class became the base class, the closure variable \<open>use_graph\<close>, and the attribute
  \<open>_dpl_graph\<close>, which exists only when the field is not \<open>None\<close>.
\<close>

record ('v, 'sd) DeplayableModule =
  of_md :: "'v of_module"
  use_graph :: bool
  dpl_graph :: "('v, 'sd) unet_graph option"

text \<open>
  \<open>oneflow_compile\<close>, lines 52-121. \<open>torch2of\<close> is the module converter, a parameter;
  the module it returns is taken to have no attribute \<open>_dpl_graph\<close> of its own.
  \<open>options\<close> is the dict of options, of which only the key \<open>size\<close> is read.
\<close>

definition oneflow_compile ::
  "('m \<Rightarrow> 'v of_module) \<Rightarrow> 'm \<Rightarrow> bool \<Rightarrow> (string \<rightharpoonup> int) \<Rightarrow> ('v, 'sd) DeplayableModule" where
  "oneflow_compile torch2of torch_unet use_graph' options =
     (let of_md' = torch2of torch_unet;
          dpl_graph' =
            (if use_graph' then
               Some (UNetGraph_init (case options ''size'' of Some s \<Rightarrow> s | None \<Rightarrow> 9) of_md')
             else None)
      in \<lparr> of_md = of_md', use_graph = use_graph', dpl_graph = dpl_graph' \<rparr>)"

text \<open>
  \<open>process_input\<close>, lines 78-83: \<open>map_leaf(input_fn)\<close> over the pair \<open>(args, kwargs)\<close>, whose
  two components are the mapped tuple of positional arguments and the mapped dict of
  keyword arguments. \<open>process_output\<close>, lines 85-88: \<open>map_leaf(output_fn)\<close> over
  \<open>(output, None)\<close>, of which the first component is returned.
\<close>

definition process_input ::
  "('t \<Rightarrow> 'f) \<Rightarrow> ('t, 'f, 'o) py_value args_tree list \<Rightarrow>
     (string \<times> ('t, 'f, 'o) py_value args_tree) list \<Rightarrow>
     ('t, 'f, 'o) py_value args_tree list \<times> (string \<times> ('t, 'f, 'o) py_value args_tree) list" where
  "process_input from_torch' args kwargs =
     (map (map_leaf (input_fn from_torch')) args,
      map (\<lambda>(k, v). (k, map_leaf (input_fn from_torch') v)) kwargs)"

definition process_output ::
  "('f \<Rightarrow> 't) \<Rightarrow> ('t, 'f, 'o) py_value args_tree \<Rightarrow> ('t, 'f, 'o) py_value args_tree" where
  "process_output to_torch' output = map_leaf (output_fn to_torch') output"

text \<open>
  The body shared by \<open>apply_model\<close> (lines 90-97) and \<open>__call__\<close> (lines 99-106), for the
  entry point \<open>entry\<close> that \<open>super()\<close> finds. When \<open>hasattr\<close> is false the method falls off
  its end and returns \<open>None\<close>. Reading \<open>self._dpl_graph\<close> raises \<open>AttributeError\<close> when the
  attribute is absent.
\<close>

definition dispatch ::
  "('t, 'f, 'o, 'sd, 'dev, 'fs) oneflow \<Rightarrow> (('t, 'f, 'o) py_value, 'sd) DeplayableModule \<Rightarrow>
     ('t, 'f, 'o) py_value py_method option \<Rightarrow> ('t, 'f, 'o) py_value py_method" where
  "dispatch lib self entry args kwargs =
     (case entry of
        None \<Rightarrow> Inr (Leaf PyNone)
      | Some super_method \<Rightarrow>
          (case process_input (from_torch lib) args kwargs of
             (mapped_args, mapped_kwargs) \<Rightarrow>
               (case (if use_graph self then
                        (case dpl_graph self of
                           None \<Rightarrow> Inl AttributeError
                         | Some g \<Rightarrow> graph_call lib g mapped_args mapped_kwargs)
                      else super_method mapped_args mapped_kwargs) of
                  Inl e \<Rightarrow> Inl e
                | Inr output \<Rightarrow> Inr (process_output (to_torch lib) output))))"

definition DeplayableModule_apply_model ::
  "('t, 'f, 'o, 'sd, 'dev, 'fs) oneflow \<Rightarrow> (('t, 'f, 'o) py_value, 'sd) DeplayableModule \<Rightarrow>
     ('t, 'f, 'o) py_value py_method" where
  "DeplayableModule_apply_model lib self args kwargs =
     dispatch lib self (cls_apply_model (of_md self)) args kwargs"

definition DeplayableModule_call ::
  "('t, 'f, 'o, 'sd, 'dev, 'fs) oneflow \<Rightarrow> (('t, 'f, 'o) py_value, 'sd) DeplayableModule \<Rightarrow>
     ('t, 'f, 'o) py_value py_method" where
  "DeplayableModule_call lib self args kwargs =
     dispatch lib self (cls_call (of_md self)) args kwargs"

text \<open>
  \<open>load_graph\<close> and \<open>warmup_with_load\<close>, lines 108-113, have the same body;
  \<open>save_graph\<close>, lines 115-116.
\<close>

definition DeplayableModule_load_graph ::
  "('t, 'f, 'o, 'sd, 'dev, 'fs) oneflow \<Rightarrow> (('t, 'f, 'o) py_value, 'sd) DeplayableModule \<Rightarrow> 'fs \<Rightarrow>
     string \<Rightarrow> 'dev option \<Rightarrow> py_error + (('t, 'f, 'o) py_value, 'sd) DeplayableModule" where
  "DeplayableModule_load_graph lib self fs file_path device =
     (case dpl_graph self of
        None \<Rightarrow> Inl AttributeError
      | Some g \<Rightarrow>
          (case UNetGraph_warmup_with_load lib g fs file_path device of
             Inl e \<Rightarrow> Inl e
           | Inr g' \<Rightarrow> Inr (self\<lparr>dpl_graph := Some g'\<rparr>)))"

definition DeplayableModule_warmup_with_load ::
  "('t, 'f, 'o, 'sd, 'dev, 'fs) oneflow \<Rightarrow> (('t, 'f, 'o) py_value, 'sd) DeplayableModule \<Rightarrow> 'fs \<Rightarrow>
     string \<Rightarrow> 'dev option \<Rightarrow> py_error + (('t, 'f, 'o) py_value, 'sd) DeplayableModule" where
  "DeplayableModule_warmup_with_load lib self fs file_path device =
     (case dpl_graph self of
        None \<Rightarrow> Inl AttributeError
      | Some g \<Rightarrow>
          (case UNetGraph_warmup_with_load lib g fs file_path device of
             Inl e \<Rightarrow> Inl e
           | Inr g' \<Rightarrow> Inr (self\<lparr>dpl_graph := Some g'\<rparr>)))"

definition DeplayableModule_save_graph ::
  "('t, 'f, 'o, 'sd, 'dev, 'fs) oneflow \<Rightarrow> (('t, 'f, 'o) py_value, 'sd) DeplayableModule \<Rightarrow> 'fs \<Rightarrow>
     string \<Rightarrow> py_error + 'fs" where
  "DeplayableModule_save_graph lib self fs file_path =
     (case dpl_graph self of
        None \<Rightarrow> Inl AttributeError
      | Some g \<Rightarrow> UNetGraph_save_graph lib g fs file_path)"

section \<open>Auxiliary notions for the proofs about the cache\<close>

text \<open>One round of the loop: the deletion of \<open>k\<close> and its two printed lines.\<close>

definition delete_shape :: "'g pipeline \<Rightarrow> shape \<Rightarrow> 'g pipeline" where
  "delete_shape self k =
     self\<lparr>printed := printed self @ [MsgDeleted (fst k) (snd k), MsgCacheSizeHint],
          unet_graphs := AList.delete k (unet_graphs self)\<rparr>"

text \<open>Line 275: the clock advances by one.\<close>

definition tick :: "'g pipeline \<Rightarrow> 'g pipeline" where
  "tick p = p\<lparr>unet_graphs_lru_cache_time := unet_graphs_lru_cache_time p + 1\<rparr>"

section \<open>Concrete inputs\<close>

text \<open>The states and library behaviours at which the theorems below are evaluated.\<close>

text \<open>
  A small instance of the bridge: tensors of both frameworks are integers, a state dict is
  a list of integers, a device is a name, and the file system is an association list from
  paths to state dicts. The conversions keep the integer. A graph that was never run has
  an empty state dict, which \<open>runtime_state_dict\<close> returns; \<open>flow_save\<close> writes the file.
  The compiled execution of a graph computes what the eager \<open>__call__\<close> of the wrapped
  module computes, with every oneflow tensor of the result off by one (a rounding
  difference).
\<close>

type_synonym ex_value = "(int, int, int) py_value"

definition off_by_one :: "ex_value \<Rightarrow> ex_value" where
  "off_by_one v = (case v of FlowTensor f \<Rightarrow> FlowTensor (f + 1) | _ \<Rightarrow> v)"

definition ex_lib :: "(int, int, int, int list, string, (string \<times> int list) list) oneflow" where
  "ex_lib =
     \<lparr> from_torch = (\<lambda>t. t),
       to_torch = (\<lambda>f. f),
       graph_call = (\<lambda>g args kwargs.
         case cls_call (unet g) of
           None \<Rightarrow> Inl (LibraryError ''TypeError'')
         | Some f \<Rightarrow> (case f args kwargs of Inl e \<Rightarrow> Inl e
                      | Inr out \<Rightarrow> Inr (map_leaf off_by_one out))),
       runtime_state_dict = (\<lambda>g. Inr (case runtime_state g of None \<Rightarrow> [] | Some sd \<Rightarrow> sd)),
       load_runtime_state_dict = (\<lambda>g sd. Inr (g\<lparr>runtime_state := Some sd\<rparr>)),
       runtime_state_dict_to = (\<lambda>sd d. Inr sd),
       flow_load = (\<lambda>fs path.
         case map_of fs path of None \<Rightarrow> Inl (LibraryError ''FileNotFoundError'') | Some sd \<Rightarrow> Inr sd),
       flow_save = (\<lambda>fs sd path. Inr ((path, sd) # fs)) \<rparr>"

text \<open>A module whose class defines \<open>__call__\<close> (it returns its positional arguments) but no
  \<open>apply_model\<close>, and the converter that returns it for every torch module.\<close>

definition ex_module :: "ex_value of_module" where
  "ex_module = \<lparr> cls_call = Some (\<lambda>args kwargs. Inr (PyTuple args)), cls_apply_model = None \<rparr>"

definition ex_torch2of :: "unit \<Rightarrow> ex_value of_module" where
  "ex_torch2of m = ex_module"

text \<open>A module whose class defines neither entry point.\<close>

definition bare_module :: "ex_value of_module" where
  "bare_module = \<lparr> cls_call = None, cls_apply_model = None \<rparr>"

definition bare_torch2of :: "unit \<Rightarrow> ex_value of_module" where
  "bare_torch2of m = bare_module"

text \<open>The tolerance of the example: two tensors differ by at most one.\<close>

definition within_one :: "int \<Rightarrow> int \<Rightarrow> bool" where
  "within_one a b = (\<bar>a - b\<bar> \<le> 1)"


text \<open>
  An argument structure whose tensors are torch tensors of the modelled conversions: a
  latent of shape \<open>[1, 2]\<close> in half precision and a timestep.
\<close>

definition latent_tensor :: torch_tensor where
  "latent_tensor =
     \<lparr> torch_dtype = Float16, torch_shape = [1, 2], torch_bytes = [0, 60, 0, 192] \<rparr>"

definition timestep_tensor :: torch_tensor where
  "timestep_tensor =
     \<lparr> torch_dtype = Int64, torch_shape = [], torch_bytes = [231, 3, 0, 0, 0, 0, 0, 0] \<rparr>"

definition spec_args :: "(torch_tensor, flow_tensor, int) py_value args_tree" where
  "spec_args =
     PyTuple [PyTuple [Leaf (TorchTensor latent_tensor), Leaf (TorchTensor timestep_tensor),
                       PyList [Leaf (Other 7), Leaf PyNone]],
              PyDict [(''encoder_hidden_states'', Leaf (TorchTensor latent_tensor))]]"

section \<open>Properties of the compiled-graph cache\<close>

subsection \<open>\<open>min\<close> with a key function\<close>

lemma py_min_from_mem: "py_min_from f b xs \<in> insert b (set xs)"
  by (induction xs arbitrary: b) auto

lemma py_min_mem: "py_min f xs = Inr k \<Longrightarrow> k \<in> set xs"
proof (cases xs)
  case Nil
  moreover assume "py_min f xs = Inr k"
  ultimately show ?thesis by (simp add: py_min_def)
next
  case (Cons x rest)
  moreover assume "py_min f xs = Inr k"
  ultimately have "k = py_min_from f x rest" by (simp add: py_min_def)
  with py_min_from_mem [of f x rest] Cons show ?thesis by simp
qed

lemma py_min_from_le:
  "f (py_min_from f b xs) \<le> f b \<and> (\<forall>x\<in>set xs. f (py_min_from f b xs) \<le> f x)"
proof (induction xs arbitrary: b)
  case Nil
  then show ?case by simp
next
  case (Cons x xs)
  from Cons.IH [of "if f x < f b then x else b"] show ?case
    by (auto split: if_splits)
qed

lemma py_min_le: "py_min f xs = Inr k \<Longrightarrow> x \<in> set xs \<Longrightarrow> f k \<le> f x"
  using py_min_from_le [of f] by (auto simp: py_min_def split: list.splits)

lemma py_min_Inl: "py_min f xs = Inl e \<Longrightarrow> xs = [] \<and> e = ValueError"
  by (auto simp: py_min_def split: list.splits)

subsection \<open>Association lists as dicts\<close>

lemma length_delete_distinct:
  "distinct (map fst al) \<Longrightarrow> k \<in> fst ` set al \<Longrightarrow> Suc (length (AList.delete k al)) = length al"
  by (induction al) (auto simp: rev_image_eqI)

lemma length_update:
  "length (AList.update k v al) = (if k \<in> fst ` set al then length al else Suc (length al))"
  by (induction al) auto

subsection \<open>The eviction loop\<close>

lemma delete_shape_simps [simp]:
  "unet_graphs (delete_shape p k) = AList.delete k (unet_graphs p)"
  "unet_graphs_cache_size (delete_shape p k) = unet_graphs_cache_size p"
  "unet_graphs_lru_cache_time (delete_shape p k) = unet_graphs_lru_cache_time p"
  "printed (delete_shape p k) = printed p @ [MsgDeleted (fst k) (snd k), MsgCacheSizeHint]"
  by (simp_all add: delete_shape_def)

lemma tick_simps [simp]:
  "unet_graphs (tick p) = unet_graphs p"
  "unet_graphs_cache_size (tick p) = unet_graphs_cache_size p"
  "unet_graphs_lru_cache_time (tick p) = unet_graphs_lru_cache_time p + 1"
  "printed (tick p) = printed p"
  "lru_time (tick p) = lru_time p"
  by (simp_all add: tick_def lru_time_def fun_eq_iff)

declare evict_lru.simps [simp del]

lemma evict_lru_below:
  "int (length (unet_graphs p)) < unet_graphs_cache_size p \<Longrightarrow> evict_lru p = (p, None)"
  by (subst evict_lru.simps) simp

lemma evict_lru_raise:
  "unet_graphs_cache_size p \<le> int (length (unet_graphs p)) \<Longrightarrow>
   py_min (lru_time p) (map fst (unet_graphs p)) = Inl e \<Longrightarrow> evict_lru p = (p, Some e)"
  by (subst evict_lru.simps) simp

lemma evict_lru_step:
  "unet_graphs_cache_size p \<le> int (length (unet_graphs p)) \<Longrightarrow>
   py_min (lru_time p) (map fst (unet_graphs p)) = Inr k \<Longrightarrow>
   evict_lru p = evict_lru (delete_shape p k)"
  by (subst evict_lru.simps) (simp add: delete_shape_def)

lemma evict_lru_induct [case_names below raise step]:
  assumes below: "\<And>p. int (length (unet_graphs p)) < unet_graphs_cache_size p \<Longrightarrow> Q p (p, None)"
    and raise: "\<And>p e. unet_graphs_cache_size p \<le> int (length (unet_graphs p)) \<Longrightarrow>
                  py_min (lru_time p) (map fst (unet_graphs p)) = Inl e \<Longrightarrow> Q p (p, Some e)"
    and step: "\<And>p k. unet_graphs_cache_size p \<le> int (length (unet_graphs p)) \<Longrightarrow>
                  py_min (lru_time p) (map fst (unet_graphs p)) = Inr k \<Longrightarrow>
                  Q (delete_shape p k) (evict_lru (delete_shape p k)) \<Longrightarrow>
                  Q p (evict_lru (delete_shape p k))"
  shows "Q p (evict_lru p)"
proof (induction p rule: evict_lru.induct)
  case (1 self)
  show ?case
  proof (cases "unet_graphs_cache_size self \<le> int (length (unet_graphs self))")
    case False
    then show ?thesis using below [of self] by (simp add: evict_lru_below)
  next
    case True
    show ?thesis
    proof (cases "py_min (lru_time self) (map fst (unet_graphs self))")
      case (Inl e)
      then show ?thesis using raise [OF True Inl] by (simp add: evict_lru_raise [OF True Inl])
    next
      case (Inr k)
      have "Q (delete_shape self k) (evict_lru (delete_shape self k))"
        using "1.IH" [OF True Inr] by (simp add: delete_shape_def)
      from step [OF True Inr this] show ?thesis
        by (simp add: evict_lru_step [OF True Inr])
    qed
  qed
qed

lemma evict_lru_frame:
  "unet_graphs_cache_size (fst (evict_lru p)) = unet_graphs_cache_size p \<and>
   unet_graphs_lru_cache_time (fst (evict_lru p)) = unet_graphs_lru_cache_time p \<and>
   set (unet_graphs (fst (evict_lru p))) \<subseteq> set (unet_graphs p)"
  by (induction p rule: evict_lru_induct) (auto simp: AList.delete_eq)

lemma evict_lru_keys:
  "fst ` set (unet_graphs (fst (evict_lru p))) \<subseteq> fst ` set (unet_graphs p)"
  using evict_lru_frame [of p] by blast

lemma evict_lru_distinct:
  "distinct (map fst (unet_graphs p)) \<Longrightarrow> distinct (map fst (unet_graphs (fst (evict_lru p))))"
  by (induction p rule: evict_lru_induct) (auto simp: AList.distinct_delete)

lemma evict_lru_room:
  "snd (evict_lru p) = None \<Longrightarrow>
   int (length (unet_graphs (fst (evict_lru p)))) < unet_graphs_cache_size p"
  by (induction p rule: evict_lru_induct) auto

lemma evict_lru_raises:
  "snd (evict_lru p) = Some e \<Longrightarrow>
   e = ValueError \<and> unet_graphs (fst (evict_lru p)) = [] \<and> unet_graphs_cache_size p \<le> 0"
proof (induction p rule: evict_lru_induct)
  case (below p)
  then show ?case by simp
next
  case (raise p e')
  then show ?case using py_min_Inl [of "lru_time p" "map fst (unet_graphs p)" e'] by auto
next
  case (step p k)
  then show ?case by simp
qed

lemma evict_lru_positive:
  "1 \<le> unet_graphs_cache_size p \<Longrightarrow> snd (evict_lru p) = None"
  using evict_lru_raises [of p] by (cases "snd (evict_lru p)") auto

lemma evict_lru_length:
  "distinct (map fst (unet_graphs p)) \<Longrightarrow> snd (evict_lru p) = None \<Longrightarrow>
   int (length (unet_graphs (fst (evict_lru p)))) =
     min (int (length (unet_graphs p))) (unet_graphs_cache_size p - 1)"
proof (induction p rule: evict_lru_induct)
  case (below p)
  then show ?case by simp
next
  case (raise p e)
  then show ?case by simp
next
  case (step p k)
  from step.hyps(2) have "k \<in> fst ` set (unet_graphs p)"
    using py_min_mem by fastforce
  from length_delete_distinct [OF step.prems(1) this] step show ?case
    by (simp add: AList.distinct_delete)
qed

lemma lru_time_delete_shape:
  "x \<noteq> k \<Longrightarrow> lru_time (delete_shape p k) x = lru_time p x"
  by (simp add: lru_time_def)

lemma evict_lru_oldest:
  "distinct (map fst (unet_graphs p)) \<Longrightarrow>
   k \<in> fst ` set (unet_graphs p) \<Longrightarrow>
   k \<notin> fst ` set (unet_graphs (fst (evict_lru p))) \<Longrightarrow>
   k' \<in> fst ` set (unet_graphs (fst (evict_lru p))) \<Longrightarrow>
   lru_time p k \<le> lru_time p k'"
proof (induction p rule: evict_lru_induct)
  case (below p)
  then show ?case by simp
next
  case (raise p e)
  then show ?case by simp
next
  case (step p m)
  have k'1: "k' \<in> fst ` set (unet_graphs (delete_shape p m))"
    using step.prems(4) evict_lru_keys [of "delete_shape p m"] by blast
  then have k'p: "k' \<in> fst ` set (unet_graphs p)" and k'm: "k' \<noteq> m"
    using AList.dom_delete_subset [of m "unet_graphs p"] AList.delete_notin_dom [of m "unet_graphs p"]
    by auto
  show ?case
  proof (cases "k = m")
    case True
    from py_min_le [OF step.hyps(2), of k'] k'p True show ?thesis by simp
  next
    case False
    with step.prems(2) have "k \<in> fst ` set (unet_graphs (delete_shape p m))"
      by (auto simp: AList.delete_eq)
    with step.IH step.prems k'1
    have "lru_time (delete_shape p m) k \<le> lru_time (delete_shape p m) k'"
      by (simp add: AList.distinct_delete)
    with False k'm show ?thesis by (simp add: lru_time_delete_shape)
  qed
qed

lemma evict_lru_kept:
  assumes "distinct (map fst (unet_graphs p))"
    and "k \<in> fst ` set (unet_graphs (fst (evict_lru p)))"
  shows "map_of (unet_graphs (fst (evict_lru p))) k = map_of (unet_graphs p) k"
proof -
  from assms(2) obtain v where v: "(k, v) \<in> set (unet_graphs (fst (evict_lru p)))"
    by auto
  with evict_lru_frame [of p] have "(k, v) \<in> set (unet_graphs p)" by blast
  with assms(1) v evict_lru_distinct [OF assms(1)] show ?thesis by simp
qed

lemma evict_lru_compilations:
  "compilations (printed (fst (evict_lru p))) = compilations (printed p)"
  by (induction p rule: evict_lru_induct) (simp_all add: compilations_def)

subsection \<open>Lines 272-294 once the names are bound\<close>

lemma cache_section_hit:
  "map_of (unet_graphs p) hw = Some (t, g) \<Longrightarrow>
   call_cache_section (names_bound hw) build p True =
     (p\<lparr>unet_graphs_lru_cache_time := unet_graphs_lru_cache_time p + 1,
        unet_graphs := AList.update hw (unet_graphs_lru_cache_time p + 1, g) (unet_graphs p)\<rparr>,
      Inr (Some g))"
  by (simp add: call_cache_section_def names_bound_def)

lemma cache_section_miss:
  "map_of (unet_graphs p) hw = None \<Longrightarrow>
   call_cache_section (names_bound hw) build p True =
     (case snd (evict_lru (tick p)) of
        Some e \<Rightarrow> (fst (evict_lru (tick p)), Inl e)
      | None \<Rightarrow>
          (case build hw of
             Inl e \<Rightarrow>
               ((fst (evict_lru (tick p)))\<lparr>
                   printed := printed (fst (evict_lru (tick p))) @ [MsgCompiling]\<rparr>,
                Inl e)
           | Inr g \<Rightarrow>
               ((fst (evict_lru (tick p)))\<lparr>
                   printed := printed (fst (evict_lru (tick p))) @
                     [MsgCompiling, MsgElapsedCompilation],
                   unet_graphs := AList.update hw (unet_graphs_lru_cache_time p + 1, g)
                                    (unet_graphs (fst (evict_lru (tick p))))\<rparr>,
                Inr (Some g))))"
  using evict_lru_frame [of "tick p"]
  by (auto simp: call_cache_section_def names_bound_def tick_def [symmetric] Let_def
      split: prod.splits option.splits sum.splits)

text \<open>
  What lines 272-294 do in an environment that binds \<open>timer\<close>, \<open>height\<close> and \<open>width\<close>. The
  lemmas of this subsection are about \<open>call_cache_section (names_bound hw)\<close>, not about the
  file as it is.
\<close>

lemma cache_section_clock:
  "unet_graphs_lru_cache_time (fst (call_cache_section (names_bound hw) build p True)) =
     unet_graphs_lru_cache_time p + 1 \<and>
   unet_graphs_cache_size (fst (call_cache_section (names_bound hw) build p True)) =
     unet_graphs_cache_size p"
proof (cases "map_of (unet_graphs p) hw")
  case None
  from cache_section_miss [OF None, of build] evict_lru_frame [of "tick p"] show ?thesis
    by (simp split: option.splits sum.splits)
next
  case (Some tg)
  then obtain t g where "map_of (unet_graphs p) hw = Some (t, g)" by (cases tg) simp
  from cache_section_hit [OF this, of build] show ?thesis by simp
qed

lemma cache_section_distinct:
  assumes "distinct (map fst (unet_graphs p))"
  shows "distinct (map fst (unet_graphs (fst (call_cache_section (names_bound hw) build p True))))"
proof (cases "map_of (unet_graphs p) hw")
  case None
  from cache_section_miss [OF None, of build] evict_lru_distinct [of "tick p"] assms show ?thesis
    by (simp add: AList.distinct_update split: option.splits sum.splits)
next
  case (Some tg)
  then obtain t g where "map_of (unet_graphs p) hw = Some (t, g)" by (cases tg) simp
  from cache_section_hit [OF this, of build] assms show ?thesis
    by (simp add: AList.distinct_update)
qed

text \<open>
  A hit returns the stored graph and changes only the clock and the access time of the
  entry: the keys, their order, every other entry and the printed lines stay.
\<close>

lemma cache_section_hit_effect:
  assumes "map_of (unet_graphs p) hw = Some (t, g)"
  shows "snd (call_cache_section (names_bound hw) build p True) = Inr (Some g) \<and>
         map fst (unet_graphs (fst (call_cache_section (names_bound hw) build p True))) =
           map fst (unet_graphs p) \<and>
         map_of (unet_graphs (fst (call_cache_section (names_bound hw) build p True))) =
           (map_of (unet_graphs p))(hw \<mapsto> (unet_graphs_lru_cache_time p + 1, g)) \<and>
         printed (fst (call_cache_section (names_bound hw) build p True)) = printed p \<and>
         unet_graphs_cache_size (fst (call_cache_section (names_bound hw) build p True)) =
           unet_graphs_cache_size p"
proof -
  from assms have "hw \<in> fst ` set (unet_graphs p)"
    by (metis map_of_eq_None_iff option.distinct(1))
  with cache_section_hit [OF assms, of build] show ?thesis
    by (simp add: AList.update_keys AList.update_conv')
qed

text \<open>
  A miss ends in one of three ways: \<open>min\<close> raises on an empty cache with a capacity below
  one; lines 287-291 raise, after the evictions and with nothing inserted; or the new graph
  is inserted and returned.
\<close>

lemma cache_section_miss_result:
  assumes "hw \<notin> fst ` set (unet_graphs p)"
  shows "(snd (call_cache_section (names_bound hw) build p True) = Inl ValueError \<and>
          unet_graphs_cache_size p \<le> 0 \<and>
          unet_graphs (fst (call_cache_section (names_bound hw) build p True)) = []) \<or>
         (\<exists>e. build hw = Inl e \<and>
          snd (call_cache_section (names_bound hw) build p True) = Inl e \<and>
          unet_graphs (fst (call_cache_section (names_bound hw) build p True)) =
            unet_graphs (fst (evict_lru (tick p))) \<and>
          int (length (unet_graphs (fst (call_cache_section (names_bound hw) build p True)))) <
            unet_graphs_cache_size p) \<or>
         (\<exists>g. build hw = Inr g \<and>
          snd (call_cache_section (names_bound hw) build p True) = Inr (Some g) \<and>
          int (length (unet_graphs (fst (call_cache_section (names_bound hw) build p True)))) \<le>
            unet_graphs_cache_size p \<and>
          map_of (unet_graphs (fst (call_cache_section (names_bound hw) build p True))) hw =
            Some (unet_graphs_lru_cache_time p + 1, g))"
proof -
  from assms have miss: "map_of (unet_graphs p) hw = None"
    by (simp add: map_of_eq_None_iff)
  show ?thesis
  proof (cases "snd (evict_lru (tick p))")
    case (Some e)
    from evict_lru_raises [OF Some] cache_section_miss [OF miss, of build] Some show ?thesis
      by simp
  next
    case None
    note room = evict_lru_room [OF None]
    show ?thesis
    proof (cases "build hw")
      case (Inl e)
      with room cache_section_miss [OF miss, of build] None show ?thesis by simp
    next
      case (Inr g)
      with room cache_section_miss [OF miss, of build] None show ?thesis
        by (simp add: length_update AList.update_conv')
    qed
  qed
qed

lemma cache_section_miss_keys:
  assumes "hw \<notin> fst ` set (unet_graphs p)"
    and "snd (call_cache_section (names_bound hw) build p True) = Inr r"
  shows "\<exists>g. build hw = Inr g \<and> r = Some g \<and>
           unet_graphs (fst (call_cache_section (names_bound hw) build p True)) =
             AList.update hw (unet_graphs_lru_cache_time p + 1, g)
               (unet_graphs (fst (evict_lru (tick p)))) \<and>
           snd (evict_lru (tick p)) = None"
proof -
  from assms(1) have miss: "map_of (unet_graphs p) hw = None"
    by (simp add: map_of_eq_None_iff)
  from cache_section_miss [OF miss, of build] assms(2) show ?thesis
    by (cases "snd (evict_lru (tick p))"; cases "build hw") simp_all
qed

text \<open>A miss that inserts leaves \<open>min (size + 1) capacity\<close> entries.\<close>

lemma cache_section_miss_length:
  assumes "distinct (map fst (unet_graphs p))"
    and "hw \<notin> fst ` set (unet_graphs p)"
    and "snd (call_cache_section (names_bound hw) build p True) = Inr r"
  shows "int (length (unet_graphs (fst (call_cache_section (names_bound hw) build p True)))) =
           min (int (length (unet_graphs p)) + 1) (unet_graphs_cache_size p)"
proof -
  from cache_section_miss_keys [OF assms(2,3)] obtain g where
    k: "unet_graphs (fst (call_cache_section (names_bound hw) build p True)) =
          AList.update hw (unet_graphs_lru_cache_time p + 1, g)
            (unet_graphs (fst (evict_lru (tick p))))"
    and n: "snd (evict_lru (tick p)) = None" by blast
  from assms(2) evict_lru_keys [of "tick p"]
  have "hw \<notin> fst ` set (unet_graphs (fst (evict_lru (tick p))))" by auto
  with k n evict_lru_length [of "tick p"] assms(1) show ?thesis
    by (simp add: length_update)
qed

lemma cache_section_miss_kept:
  assumes "distinct (map fst (unet_graphs p))"
    and "hw \<notin> fst ` set (unet_graphs p)"
    and "snd (call_cache_section (names_bound hw) build p True) = Inr r"
    and "k \<in> fst ` set (unet_graphs (fst (call_cache_section (names_bound hw) build p True)))"
    and "k \<noteq> hw"
  shows "map_of (unet_graphs (fst (call_cache_section (names_bound hw) build p True))) k =
           map_of (unet_graphs p) k \<and>
         k \<in> fst ` set (unet_graphs (fst (evict_lru (tick p))))"
proof -
  from cache_section_miss_keys [OF assms(2,3)] obtain g where
    u: "unet_graphs (fst (call_cache_section (names_bound hw) build p True)) =
          AList.update hw (unet_graphs_lru_cache_time p + 1, g)
            (unet_graphs (fst (evict_lru (tick p))))" by blast
  from assms(4,5) u have kk: "k \<in> fst ` set (unet_graphs (fst (evict_lru (tick p))))"
    by (auto simp: AList.dom_update)
  from evict_lru_kept [of "tick p" k] assms(1) kk
  have "map_of (unet_graphs (fst (evict_lru (tick p)))) k = map_of (unet_graphs p) k"
    by simp
  with u assms(5) kk show ?thesis by (simp add: AList.update_conv')
qed

text \<open>
  The entries that a miss removes are the oldest: each of them was accessed no later than
  every entry that stays.
\<close>

lemma cache_section_miss_oldest:
  assumes "distinct (map fst (unet_graphs p))"
    and "hw \<notin> fst ` set (unet_graphs p)"
    and "snd (call_cache_section (names_bound hw) build p True) = Inr r"
    and "k \<in> fst ` set (unet_graphs p)"
    and "k \<notin> fst ` set (unet_graphs (fst (call_cache_section (names_bound hw) build p True)))"
    and "k' \<in> fst ` set (unet_graphs (fst (call_cache_section (names_bound hw) build p True)))"
    and "k' \<noteq> hw"
  shows "lru_time p k \<le> lru_time p k'"
proof -
  from cache_section_miss_keys [OF assms(2,3)] obtain g where
    u: "unet_graphs (fst (call_cache_section (names_bound hw) build p True)) =
          AList.update hw (unet_graphs_lru_cache_time p + 1, g)
            (unet_graphs (fst (evict_lru (tick p))))" by blast
  from cache_section_miss_kept [OF assms(1,2,3,6,7)]
  have k': "k' \<in> fst ` set (unet_graphs (fst (evict_lru (tick p))))" by simp
  from assms(5) u have k: "k \<notin> fst ` set (unet_graphs (fst (evict_lru (tick p))))"
    by (auto simp: AList.dom_update)
  from evict_lru_oldest [of "tick p" k k'] assms(1,4) k k' show ?thesis by simp
qed

text \<open>Every invocation preserves the bound on the size, however it ends.\<close>

lemma cache_section_bound:
  assumes "int (length (unet_graphs p)) \<le> unet_graphs_cache_size p"
  shows "int (length (unet_graphs (fst (call_cache_section (names_bound hw) build p True)))) \<le>
           unet_graphs_cache_size p"
proof (cases "map_of (unet_graphs p) hw")
  case (Some tg)
  then obtain t g where hit: "map_of (unet_graphs p) hw = Some (t, g)" by (cases tg) simp
  from cache_section_hit_effect [OF hit, of build]
  have "length (map fst (unet_graphs (fst (call_cache_section (names_bound hw) build p True)))) =
        length (map fst (unet_graphs p))" by simp
  with assms show ?thesis by simp
next
  case None
  then have "hw \<notin> fst ` set (unet_graphs p)" by (simp add: map_of_eq_None_iff)
  from cache_section_miss_result [OF this, of build] assms show ?thesis by auto
qed

text \<open>
  After an invocation that returned the graph \<open>g\<close> for a shape, whether it found or
  compiled it, the next invocation for this shape returns \<open>g\<close> again, whatever lines
  287-291 would do, and prints nothing.
\<close>

lemma cache_section_second_lookup:
  assumes "call_cache_section (names_bound hw) build p True = (p1, Inr (Some g))"
  shows "call_cache_section (names_bound hw) build' p1 True =
           (p1\<lparr>unet_graphs_lru_cache_time := unet_graphs_lru_cache_time p1 + 1,
               unet_graphs :=
                 AList.update hw (unet_graphs_lru_cache_time p1 + 1, g) (unet_graphs p1)\<rparr>,
            Inr (Some g))"
proof -
  from assms have p1: "p1 = fst (call_cache_section (names_bound hw) build p True)"
    and r: "snd (call_cache_section (names_bound hw) build p True) = Inr (Some g)" by simp_all
  have "map_of (unet_graphs p1) hw = Some (unet_graphs_lru_cache_time p + 1, g)"
  proof (cases "map_of (unet_graphs p) hw")
    case None
    then have "hw \<notin> fst ` set (unet_graphs p)" by (simp add: map_of_eq_None_iff)
    from cache_section_miss_result [OF this, of build] r show ?thesis
      unfolding p1 by auto
  next
    case (Some tg)
    then obtain t g' where hit: "map_of (unet_graphs p) hw = Some (t, g')" by (cases tg) simp
    from cache_section_hit [OF hit, of build] r show ?thesis
      unfolding p1 by (simp add: AList.update_conv')
  qed
  then show ?thesis by (rule cache_section_hit)
qed

lemmas cache_eval =
  call_cache_section_def names_bound_def evict_lru.simps py_min_def lru_time_def
  pipeline_init_def Let_def

text \<open>
  With capacity 2, graphs that compile, and the shapes \<open>A, B, C, A, D\<close> (pairwise
  different), the lines leave exactly the keys \<open>A\<close> and \<open>D\<close> and print the deletions of
  \<open>A\<close>, \<open>B\<close> and \<open>C\<close>, in this order.
\<close>

lemma cache_section_lru_order:
  assumes "distinct [A, B, C, D]"
  shows "\<exists>p. cache_section_calls (\<lambda>hw. Inr (g hw))
               (pipeline_init\<lparr>unet_graphs_cache_size := 2\<rparr>) [A, B, C, A, D] = Inr p \<and>
             unet_graphs p = [(A, (4, g A)), (D, (5, g D))] \<and>
             deleted_shapes (printed p) = [A, B, C] \<and>
             compilations (printed p) = 5"
proof -
  from assms have ne: "A \<noteq> B" "A \<noteq> C" "A \<noteq> D" "B \<noteq> C" "B \<noteq> D" "C \<noteq> D"
    "B \<noteq> A" "C \<noteq> A" "D \<noteq> A" "C \<noteq> B" "D \<noteq> B" "D \<noteq> C"
    by auto
  show ?thesis
    by (simp add: cache_eval compilations_def ne)
qed

subsection \<open>The invocation in the file as it is\<close>

lemma pipeline_call_raises:
  "pipeline_call build p earlier compile_unet =
     (p, Inl (case earlier of Some e \<Rightarrow> e | None \<Rightarrow> NameError ''timer''))"
  by (cases earlier) (simp_all add: pipeline_call_def call_cache_section_def source_env_def)

lemma pipeline_calls_catching_id: "pipeline_calls_catching build p flags = p"
  by (induction flags) (simp_all add: pipeline_call_raises)

text \<open>
  C1. In the file as it is, no invocation reaches the cache: when the earlier lines
  return, line 272 raises \<open>NameError\<close> for \<open>timer\<close>, whatever \<open>compile_unet\<close> is, and the
  state is the one of before. On a new pipeline the clock stays 0 and the cache stays
  empty: there is no access that increments the clock, inserts, evicts or updates an
  access time.
\<close>

theorem call_never_reaches_cache:
  "pipeline_call build p earlier compile_unet =
     (p, Inl (case earlier of Some e \<Rightarrow> e | None \<Rightarrow> NameError ''timer'')) \<and>
   pipeline_call build pipeline_init None True = (pipeline_init, Inl (NameError ''timer'')) \<and>
   unet_graphs_lru_cache_time (fst (pipeline_call build pipeline_init None True)) = 0 \<and>
   unet_graphs (fst (pipeline_call build pipeline_init None True)) = []"
  by (simp add: pipeline_call_raises pipeline_init_def)

text \<open>
  C2. In the file as it is, a second invocation does not return a cached graph: the first
  invocation on a new pipeline raises and caches nothing, and the second one, made after
  the exception of the first was caught, raises \<open>NameError\<close> for \<open>timer\<close> as well.
\<close>

theorem second_lookup_raises:
  "pipeline_calls_catching build pipeline_init [True] = pipeline_init \<and>
   unet_graphs (pipeline_calls_catching build pipeline_init [True]) = [] \<and>
   pipeline_call build (pipeline_calls_catching build pipeline_init [True]) None True =
     (pipeline_init, Inl (NameError ''timer'')) \<and>
   (\<forall>g. snd (pipeline_call build (pipeline_calls_catching build pipeline_init [True]) None True)
          \<noteq> Inr (Some g))"
  by (simp add: pipeline_calls_catching_id pipeline_call_raises pipeline_init_def)

text \<open>
  C3. In the file as it is, with capacity 2, a caller that makes five invocations with
  \<open>compile_unet=True\<close> (for images of the shapes \<open>A, B, C, A, D\<close>) gets \<open>NameError\<close> for \<open>timer\<close>
  from the first one; if it catches every exception and makes all five, the cache is empty
  at the end, not \<open>{A, D}\<close>, and no deletion was printed.
\<close>

theorem lru_sequence_raises:
  "pipeline_calls build (pipeline_init\<lparr>unet_graphs_cache_size := 2\<rparr>)
     [True, True, True, True, True] = Inl (NameError ''timer'') \<and>
   pipeline_calls_catching build (pipeline_init\<lparr>unet_graphs_cache_size := 2\<rparr>)
     [True, True, True, True, True] = pipeline_init\<lparr>unet_graphs_cache_size := 2\<rparr> \<and>
   unet_graphs (pipeline_calls_catching build (pipeline_init\<lparr>unet_graphs_cache_size := 2\<rparr>)
     [True, True, True, True, True]) = [] \<and>
   deleted_shapes (printed (pipeline_calls_catching build
     (pipeline_init\<lparr>unet_graphs_cache_size := 2\<rparr>) [True, True, True, True, True])) = []"
  by (simp add: pipeline_calls_catching_id pipeline_call_raises pipeline_init_def)

text \<open>
  C4, as amended. \<open>set_unet_graphs_cache_size n\<close> returns for every integer \<open>n\<close> and for
  every state, and replaces only the maximum: the entries, the clock and the printed lines
  are those of before, so the call evicts nothing, also when \<open>n\<close> is below the occupancy.
\<close>

theorem set_cache_size_only_assigns:
  "set_unet_graphs_cache_size p n = Inr (p\<lparr>unet_graphs_cache_size := n\<rparr>) \<and>
   unet_graphs_cache_size (p\<lparr>unet_graphs_cache_size := n\<rparr>) = n \<and>
   unet_graphs (p\<lparr>unet_graphs_cache_size := n\<rparr>) = unet_graphs p \<and>
   unet_graphs_lru_cache_time (p\<lparr>unet_graphs_cache_size := n\<rparr>) = unet_graphs_lru_cache_time p \<and>
   printed (p\<lparr>unet_graphs_cache_size := n\<rparr>) = printed p"
  by (simp add: set_unet_graphs_cache_size_def)

text \<open>
  C4 as stated fails: the capacity 0 (and a negative one) is accepted, no \<open>ConfigError\<close> is
  raised.
\<close>

theorem capacity_zero_is_accepted:
  "set_unet_graphs_cache_size (pipeline_init :: unit pipeline) 0 =
     Inr (pipeline_init\<lparr>unet_graphs_cache_size := 0\<rparr>) \<and>
   set_unet_graphs_cache_size (pipeline_init :: unit pipeline) 0 \<noteq> Inl ConfigError \<and>
   set_unet_graphs_cache_size (pipeline_init :: unit pipeline) (- 1) =
     Inr (pipeline_init\<lparr>unet_graphs_cache_size := - 1\<rparr>)"
  by (simp add: set_unet_graphs_cache_size_def)

text \<open>
  With the names bound, the eviction that a lower capacity calls for happens at the next
  miss: for a capacity \<open>n \<ge> 1\<close> and graphs that compile, the miss returns the new graph and
  leaves \<open>min (size + 1) n\<close> entries.
\<close>

lemma cache_section_after_set_cache_size:
  assumes "1 \<le> n" and "distinct (map fst (unet_graphs p))"
    and "hw \<notin> fst ` set (unet_graphs p)" and "build hw = Inr g"
  shows "snd (call_cache_section (names_bound hw) build
                (p\<lparr>unet_graphs_cache_size := n\<rparr>) True) = Inr (Some g) \<and>
         int (length (unet_graphs (fst (call_cache_section (names_bound hw) build
                (p\<lparr>unet_graphs_cache_size := n\<rparr>) True)))) =
           min (int (length (unet_graphs p)) + 1) n"
proof -
  let ?q = "p\<lparr>unet_graphs_cache_size := n\<rparr>"
  from assms have miss: "hw \<notin> fst ` set (unet_graphs ?q)"
    and wf: "distinct (map fst (unet_graphs ?q))" by simp_all
  from cache_section_miss_result [OF miss, of build] assms(1,4)
  have ok: "snd (call_cache_section (names_bound hw) build ?q True) = Inr (Some g)"
    by auto
  from ok cache_section_miss_length [OF wf miss ok] show ?thesis by simp
qed

section \<open>Properties of the tensor bridge and the deployable module\<close>

lemma map_leaf_map: "map_leaf f t = map_args_tree f t"
  by (induction f t rule: map_leaf.induct) (auto simp: map_prod_def case_prod_beta)

lemma map_leaf_comp: "map_leaf g (map_leaf f t) = map_leaf (g \<circ> f) t"
  by (simp add: map_leaf_map args_tree.map_comp)

lemma map_leaf_ident: "(\<And>v. v \<in> set_args_tree t \<Longrightarrow> f v = v) \<Longrightarrow> map_leaf f t = t"
  by (simp add: map_leaf_map args_tree.map_ident_strong)

lemma tree_shape_map_leaf: "tree_shape (map_leaf f t) = tree_shape t"
  by (simp add: tree_shape_def map_leaf_comp comp_def)



lemma output_input_fn:
  "\<not> is_flow v \<Longrightarrow> (\<And>t. v = TorchTensor t \<Longrightarrow> to_torch' (from_torch' t) = t) \<Longrightarrow>
   output_fn to_torch' (input_fn from_torch' v) = v"
  by (cases v) (simp_all add: input_fn_def output_fn_def)

lemma process_input_tree:
  "map_leaf (input_fn from_torch') (PyTuple [PyTuple args, PyDict kwargs]) =
     PyTuple [PyTuple (fst (process_input from_torch' args kwargs)),
              PyDict (snd (process_input from_torch' args kwargs))]"
  by (simp add: process_input_def)

text \<open>
  What the code gives for any conversions: the structure is kept, every leaf that is no
  tensor is kept, and a torch tensor \<open>t\<close> comes back as \<open>to_torch (from_torch t)\<close>. The
  round trip is the identity on a structure without oneflow tensors exactly as far as the
  library's \<open>to_torch\<close> undoes its \<open>from_torch\<close>.
\<close>

lemma round_trip_leaves:
  "process_output to_torch' (map_leaf (input_fn from_torch') S) =
     map_leaf (\<lambda>v. case v of
                 TorchTensor t \<Rightarrow> TorchTensor (to_torch' (from_torch' t))
               | FlowTensor f \<Rightarrow> TorchTensor (to_torch' f)
               | _ \<Rightarrow> v) S"
proof -
  have "output_fn to_torch' \<circ> input_fn from_torch' =
          (\<lambda>v. case v of
                 TorchTensor t \<Rightarrow> TorchTensor (to_torch' (from_torch' t))
               | FlowTensor f \<Rightarrow> TorchTensor (to_torch' f)
               | _ \<Rightarrow> v)"
    by (rule ext) (simp add: input_fn_def output_fn_def split: py_value.splits)
  then have "map_leaf (output_fn to_torch' \<circ> input_fn from_torch') S =
          map_leaf (\<lambda>v. case v of
                 TorchTensor t \<Rightarrow> TorchTensor (to_torch' (from_torch' t))
               | FlowTensor f \<Rightarrow> TorchTensor (to_torch' f)
               | _ \<Rightarrow> v) S"
    by (rule arg_cong)
  then show ?thesis by (simp only: process_output_def map_leaf_comp)
qed

lemma round_trip_if_inverse:
  assumes dyn: "\<forall>v\<in>set_args_tree S. \<not> is_flow v"
    and inv: "\<forall>t. TorchTensor t \<in> set_args_tree S \<longrightarrow> to_torch' (from_torch' t) = t"
  shows "process_output to_torch' (map_leaf (input_fn from_torch') S) = S \<and>
         tree_shape (map_leaf (input_fn from_torch') S) = tree_shape S \<and>
         (S = PyTuple [PyTuple args, PyDict kwargs] \<longrightarrow>
            process_output to_torch'
              (PyTuple [PyTuple (fst (process_input from_torch' args kwargs)),
                        PyDict (snd (process_input from_torch' args kwargs))]) = S)"
proof -
  have leaf: "(output_fn to_torch' \<circ> input_fn from_torch') v = v" if "v \<in> set_args_tree S" for v
  proof (cases v)
    case (TorchTensor t)
    with that inv show ?thesis by (simp add: input_fn_def output_fn_def)
  next
    case (FlowTensor f)
    with that dyn show ?thesis by auto
  qed (simp_all add: input_fn_def output_fn_def)
  have round: "process_output to_torch' (map_leaf (input_fn from_torch') S) = S"
    unfolding process_output_def map_leaf_comp by (rule map_leaf_ident) (rule leaf)
  have pair: "S = PyTuple [PyTuple args, PyDict kwargs] \<longrightarrow>
            process_output to_torch'
              (PyTuple [PyTuple (fst (process_input from_torch' args kwargs)),
                        PyDict (snd (process_input from_torch' args kwargs))]) = S"
  proof (rule impI)
    assume eq: "S = PyTuple [PyTuple args, PyDict kwargs]"
    have "map_leaf (input_fn from_torch') S =
            PyTuple [PyTuple (fst (process_input from_torch' args kwargs)),
                     PyDict (snd (process_input from_torch' args kwargs))]"
      unfolding eq by (rule process_input_tree)
    with round show "process_output to_torch'
              (PyTuple [PyTuple (fst (process_input from_torch' args kwargs)),
                        PyDict (snd (process_input from_torch' args kwargs))]) = S"
      by simp
  qed
  from round tree_shape_map_leaf [of "input_fn from_torch'" S] pair show ?thesis
    by (intro conjI)
qed

lemma to_from_torch_spec: "to_torch_spec (from_torch_spec t) = t"
  by (simp add: to_torch_spec_def from_torch_spec_def)

text \<open>
  C7. With the conversions as the specification describes them (the converted tensor has
  the dtype, the shape and the bytes of the original), let \<open>S\<close> be a structure whose leaves
  are torch tensors and other values, with no oneflow tensor among them. Converting \<open>S\<close>
  leaf by leaf with \<open>input_fn\<close> and converting the result back with \<open>process_output\<close> gives
  \<open>S\<close> itself: the same nesting, keys and order, and leaves with the same dtype, shape and
  bytes. The structure that \<open>process_input\<close> builds from \<open>(args, kwargs)\<close> is this conversion
  of the pair.
\<close>

theorem bridge_round_trip:
  assumes dyn: "\<forall>v\<in>set_args_tree S. \<not> is_flow v"
  shows "process_output to_torch_spec (map_leaf (input_fn from_torch_spec) S) = S \<and>
         tree_shape (map_leaf (input_fn from_torch_spec) S) = tree_shape S \<and>
         (S = PyTuple [PyTuple args, PyDict kwargs] \<longrightarrow>
            process_output to_torch_spec
              (PyTuple [PyTuple (fst (process_input from_torch_spec args kwargs)),
                        PyDict (snd (process_input from_torch_spec args kwargs))]) = S)"
proof -
  have inv: "\<forall>t. TorchTensor t \<in> set_args_tree S \<longrightarrow> to_torch_spec (from_torch_spec t) = t"
    by (simp add: to_from_torch_spec)
  from dyn inv show ?thesis by (rule round_trip_if_inverse)
qed

theorem bridge_round_trip_witness:
  "set_args_tree spec_args =
     {TorchTensor latent_tensor, TorchTensor timestep_tensor, Other 7, PyNone} \<and>
   map_leaf (input_fn from_torch_spec) spec_args =
     PyTuple [PyTuple [Leaf (FlowTensor (from_torch_spec latent_tensor)),
                       Leaf (FlowTensor (from_torch_spec timestep_tensor)),
                       PyList [Leaf (Other 7), Leaf PyNone]],
              PyDict [(''encoder_hidden_states'',
                       Leaf (FlowTensor (from_torch_spec latent_tensor)))]] \<and>
   from_torch_spec latent_tensor =
     \<lparr> flow_dtype = Float16, flow_shape = [1, 2], flow_bytes = [0, 60, 0, 192] \<rparr> \<and>
   process_output to_torch_spec (map_leaf (input_fn from_torch_spec) spec_args) = spec_args"
proof -
  have leaves: "set_args_tree spec_args =
     {TorchTensor latent_tensor, TorchTensor timestep_tensor, Other 7, PyNone}"
    by (auto simp: spec_args_def)
  then have dyn: "\<forall>v\<in>set_args_tree spec_args. \<not> is_flow v"
    by simp
  have conv: "map_leaf (input_fn from_torch_spec) spec_args =
     PyTuple [PyTuple [Leaf (FlowTensor (from_torch_spec latent_tensor)),
                       Leaf (FlowTensor (from_torch_spec timestep_tensor)),
                       PyList [Leaf (Other 7), Leaf PyNone]],
              PyDict [(''encoder_hidden_states'',
                       Leaf (FlowTensor (from_torch_spec latent_tensor)))]]"
    by (simp add: spec_args_def input_fn_def)
  have payload: "from_torch_spec latent_tensor =
     \<lparr> flow_dtype = Float16, flow_shape = [1, 2], flow_bytes = [0, 60, 0, 192] \<rparr>"
    by (simp add: from_torch_spec_def latent_tensor_def)
  have "process_output to_torch_spec (map_leaf (input_fn from_torch_spec) spec_args) = spec_args"
    by (rule bridge_round_trip [where args = "[]" and kwargs = "[]", OF dyn, THEN conjunct1])
  with leaves conv payload show ?thesis by (intro conjI)
qed



subsection \<open>The deployable module\<close>

text \<open>
  C9. The module that \<open>oneflow_compile\<close> returns for \<open>use_graph=False\<close> has no \<open>_dpl_graph\<close>
  attribute (no \<open>UNetGraph\<close> was constructed for it), and \<open>save_graph\<close>, \<open>load_graph\<close> and
  \<open>warmup_with_load\<close> on it raise \<open>AttributeError\<close>, whatever the library, the file system,
  the path and the device are.
\<close>

theorem eager_module_has_no_graph:
  "dpl_graph (oneflow_compile torch2of torch_unet False options) = None \<and>
   \<not> use_graph (oneflow_compile torch2of torch_unet False options) \<and>
   DeplayableModule_save_graph lib (oneflow_compile torch2of torch_unet False options)
     fs file_path = Inl AttributeError \<and>
   DeplayableModule_load_graph lib (oneflow_compile torch2of torch_unet False options)
     fs file_path device = Inl AttributeError \<and>
   DeplayableModule_warmup_with_load lib (oneflow_compile torch2of torch_unet False options)
     fs file_path device = Inl AttributeError"
  by (simp add: oneflow_compile_def DeplayableModule_save_graph_def
      DeplayableModule_load_graph_def DeplayableModule_warmup_with_load_def Let_def)

theorem eager_module_has_no_graph_witness:
  "dpl_graph (oneflow_compile ex_torch2of () False Map.empty
      :: (ex_value, int list) DeplayableModule) = None \<and>
   DeplayableModule_save_graph ex_lib (oneflow_compile ex_torch2of () False Map.empty)
     [] ''unet_graph'' = Inl AttributeError \<and>
   DeplayableModule_load_graph ex_lib (oneflow_compile ex_torch2of () False Map.empty)
     [(''unet_graph'', [])] ''unet_graph'' None = Inl AttributeError \<and>
   DeplayableModule_warmup_with_load ex_lib (oneflow_compile ex_torch2of () False Map.empty)
     [(''unet_graph'', [])] ''unet_graph'' (Some ''cuda'') = Inl AttributeError"
proof -
  note i = eager_module_has_no_graph
             [where torch2of = ex_torch2of and torch_unet = "()" and options = Map.empty
                and lib = ex_lib]
  have a: "dpl_graph (oneflow_compile ex_torch2of () False Map.empty
             :: (ex_value, int list) DeplayableModule) = None"
    by (rule i [THEN conjunct1])
  have b: "DeplayableModule_save_graph ex_lib (oneflow_compile ex_torch2of () False Map.empty)
             [] ''unet_graph'' = Inl AttributeError"
    by (rule i [THEN conjunct2, THEN conjunct2, THEN conjunct1])
  have c: "DeplayableModule_load_graph ex_lib (oneflow_compile ex_torch2of () False Map.empty)
             [(''unet_graph'', [])] ''unet_graph'' None = Inl AttributeError"
    by (rule i [THEN conjunct2, THEN conjunct2, THEN conjunct2, THEN conjunct1])
  have d: "DeplayableModule_warmup_with_load ex_lib
             (oneflow_compile ex_torch2of () False Map.empty)
             [(''unet_graph'', [])] ''unet_graph'' (Some ''cuda'') = Inl AttributeError"
    by (rule i [THEN conjunct2, THEN conjunct2, THEN conjunct2, THEN conjunct2])
  from a b c d show ?thesis by (intro conjI)
qed

text \<open>
  C10. When \<open>super()\<close> finds no \<open>__call__\<close>, the module's \<open>__call__\<close> returns \<open>None\<close>; when it
  finds no \<open>apply_model\<close>, the module's \<open>apply_model\<close> returns \<open>None\<close>. This holds for every
  library, every module state and all arguments: no conversion and no execution can
  change the result or raise.
\<close>

theorem missing_entry_point_returns_none:
  "(cls_call (of_md m) = None \<longrightarrow>
      DeplayableModule_call lib m args kwargs = Inr (Leaf PyNone)) \<and>
   (cls_apply_model (of_md m) = None \<longrightarrow>
      DeplayableModule_apply_model lib m args kwargs = Inr (Leaf PyNone))"
  by (simp add: DeplayableModule_call_def DeplayableModule_apply_model_def dispatch_def)

theorem missing_entry_point_returns_none_witness:
  "cls_call (of_md (oneflow_compile bare_torch2of () True Map.empty
      :: (ex_value, int list) DeplayableModule)) = None \<and>
   DeplayableModule_call ex_lib (oneflow_compile bare_torch2of () True Map.empty)
     [Leaf (TorchTensor 5)] [] = Inr (Leaf PyNone) \<and>
   cls_apply_model (of_md (oneflow_compile ex_torch2of () False Map.empty
      :: (ex_value, int list) DeplayableModule)) = None \<and>
   DeplayableModule_apply_model ex_lib (oneflow_compile ex_torch2of () False Map.empty)
     [Leaf (TorchTensor 5)] [] = Inr (Leaf PyNone)"
proof -
  let ?bare = "oneflow_compile bare_torch2of () True Map.empty
                 :: (ex_value, int list) DeplayableModule"
  let ?eager = "oneflow_compile ex_torch2of () False Map.empty
                 :: (ex_value, int list) DeplayableModule"
  have a: "cls_call (of_md ?bare) = None"
    by (simp add: oneflow_compile_def bare_torch2of_def bare_module_def Let_def)
  have b: "cls_apply_model (of_md ?eager) = None"
    by (simp add: oneflow_compile_def ex_torch2of_def ex_module_def Let_def)
  from missing_entry_point_returns_none
         [where m = ?bare and lib = ex_lib and args = "[Leaf (TorchTensor 5)]" and kwargs = "[]"] a
  have c: "DeplayableModule_call ex_lib ?bare [Leaf (TorchTensor 5)] [] = Inr (Leaf PyNone)"
    by simp
  from missing_entry_point_returns_none
         [where m = ?eager and lib = ex_lib and args = "[Leaf (TorchTensor 5)]" and kwargs = "[]"] b
  have d: "DeplayableModule_apply_model ex_lib ?eager [Leaf (TorchTensor 5)] [] =
             Inr (Leaf PyNone)"
    by simp
  from a c b d show ?thesis by (intro conjI)
qed

text \<open>
  C5, as amended. \<open>save_graph\<close> does not look at the state of the graph. On every graph,
  a freshly constructed one included, it returns what \<open>flow.save\<close> returns for the state
  dict that \<open>runtime_state_dict\<close> gives, and it raises exactly the exception of
  \<open>runtime_state_dict\<close> when that call raises. The module's \<open>save_graph\<close> hands over to the
  graph's, and the graph of a module compiled with \<open>use_graph=True\<close> is a fresh one, with
  no runtime state.
\<close>

theorem save_graph_without_state_check:
  "(runtime_state_dict lib g = Inr sd \<longrightarrow>
      UNetGraph_save_graph lib g fs file_path = flow_save lib fs sd file_path) \<and>
   (runtime_state_dict lib g = Inl e \<longrightarrow> UNetGraph_save_graph lib g fs file_path = Inl e) \<and>
   (dpl_graph m = Some g \<longrightarrow>
      DeplayableModule_save_graph lib m fs file_path =
        UNetGraph_save_graph lib g fs file_path) \<and>
   dpl_graph (oneflow_compile torch2of torch_unet True options) =
     Some (UNetGraph_init (case options ''size'' of Some s \<Rightarrow> s | None \<Rightarrow> 9)
             (torch2of torch_unet)) \<and>
   runtime_state (UNetGraph_init n u) = None"
  by (simp add: UNetGraph_save_graph_def DeplayableModule_save_graph_def oneflow_compile_def
      UNetGraph_init_def Let_def)

theorem save_graph_without_state_check_witness:
  "runtime_state_dict ex_lib (UNetGraph_init 9 ex_module) = Inr [] \<and>
   UNetGraph_save_graph ex_lib (UNetGraph_init 9 ex_module) [] ''unet_graph'' =
     flow_save ex_lib [] [] ''unet_graph'' \<and>
   flow_save ex_lib [] [] ''unet_graph'' = Inr [(''unet_graph'', [])]"
proof -
  have a: "runtime_state_dict ex_lib (UNetGraph_init 9 ex_module) = Inr []"
    by (simp add: ex_lib_def UNetGraph_init_def)
  have b: "flow_save ex_lib [] [] ''unet_graph'' = Inr [(''unet_graph'', [])]"
    by (simp add: ex_lib_def)
  have c: "UNetGraph_save_graph ex_lib (UNetGraph_init 9 ex_module) [] ''unet_graph'' =
             flow_save ex_lib [] [] ''unet_graph''"
    by (rule save_graph_without_state_check [THEN conjunct1, THEN mp, OF a])
  from a c b show ?thesis by (intro conjI)
qed

text \<open>
  C5 as stated fails for a library whose \<open>runtime_state_dict\<close> returns the (empty) state of
  a graph that was never run: saving a freshly constructed graph returns and writes the
  file, and no \<open>InvalidStateError\<close> is raised, neither through the graph nor through the
  module.
\<close>

theorem save_fresh_graph_returns:
  "runtime_state (UNetGraph_init 9 ex_module :: (ex_value, int list) unet_graph) = None \<and>
   UNetGraph_save_graph ex_lib (UNetGraph_init 9 ex_module) [] ''unet_graph'' =
     Inr [(''unet_graph'', [])] \<and>
   UNetGraph_save_graph ex_lib (UNetGraph_init 9 ex_module) [] ''unet_graph'' \<noteq>
     Inl InvalidStateError \<and>
   DeplayableModule_save_graph ex_lib (oneflow_compile ex_torch2of () True Map.empty) []
     ''unet_graph'' = Inr [(''unet_graph'', [])]"
  by (simp add: UNetGraph_save_graph_def DeplayableModule_save_graph_def oneflow_compile_def
      UNetGraph_init_def ex_lib_def ex_torch2of_def Let_def)

subsection \<open>Graph mode against eager mode\<close>

lemma output_fn_rel:
  assumes "rel_py_value (=) tol_f (=) a b"
    and conv: "\<And>x y. tol_f x y \<Longrightarrow> tol_t (to_torch' x) (to_torch' y)"
    and refl: "\<And>t. tol_t t t"
  shows "rel_py_value tol_t (=) (=) (output_fn to_torch' a) (output_fn to_torch' b)"
  using assms(1) by (cases a; cases b) (simp_all add: output_fn_def conv refl)

lemma process_output_rel:
  assumes "rel_args_tree (rel_py_value (=) tol_f (=)) x y"
    and conv: "\<And>x y. tol_f x y \<Longrightarrow> tol_t (to_torch' x) (to_torch' y)"
    and refl: "\<And>t. tol_t t t"
  shows "rel_args_tree (rel_py_value tol_t (=) (=))
           (process_output to_torch' x) (process_output to_torch' y)"
proof -
  have "rel_args_tree
          (\<lambda>a b. rel_py_value tol_t (=) (=) (output_fn to_torch' a) (output_fn to_torch' b)) x y"
  proof (rule args_tree.rel_mono_strong [OF assms(1)])
    fix a b :: "('a, 'b, 'c) py_value"
    assume "rel_py_value (=) tol_f (=) a b"
    then show "rel_py_value tol_t (=) (=) (output_fn to_torch' a) (output_fn to_torch' b)"
      using conv refl by (rule output_fn_rel)
  qed
  then show ?thesis
    by (simp add: process_output_def map_leaf_map args_tree.rel_map)
qed

lemma dispatch_rel:
  fixes lib :: "('t, 'f, 'o, 'sd, 'dev, 'fs) oneflow"
  assumes conv: "\<And>x y. tol_f x y \<Longrightarrow> tol_t (to_torch lib x) (to_torch lib y)"
    and refl: "\<And>t. tol_t t t"
    and graph: "dpl_graph mg = Some g" "use_graph mg"
    and eager: "\<not> use_graph me"
    and equiv: "\<And>super_method. entry = Some super_method \<Longrightarrow>
       rel_sum (=) (rel_args_tree (rel_py_value (=) tol_f (=)))
         (graph_call lib g (fst (process_input (from_torch lib) args kwargs))
            (snd (process_input (from_torch lib) args kwargs)))
         (super_method (fst (process_input (from_torch lib) args kwargs))
            (snd (process_input (from_torch lib) args kwargs)))"
  shows "rel_sum (=) (rel_args_tree (rel_py_value tol_t (=) (=)))
           (dispatch lib mg entry args kwargs) (dispatch lib me entry args kwargs)"
proof (cases entry)
  case None
  then show ?thesis by (simp add: dispatch_def)
next
  case (Some super_method)
  let ?a = "fst (process_input (from_torch lib) args kwargs)"
  let ?k = "snd (process_input (from_torch lib) args kwargs)"
  from equiv [OF Some]
  have r: "rel_sum (=) (rel_args_tree (rel_py_value (=) tol_f (=)))
             (graph_call lib g ?a ?k) (super_method ?a ?k)" .
  have dg: "dispatch lib mg entry args kwargs =
              (case graph_call lib g ?a ?k of Inl e \<Rightarrow> Inl e
               | Inr out \<Rightarrow> Inr (process_output (to_torch lib) out))"
    using Some graph by (simp add: dispatch_def case_prod_beta)
  have de: "dispatch lib me entry args kwargs =
              (case super_method ?a ?k of Inl e \<Rightarrow> Inl e
               | Inr out \<Rightarrow> Inr (process_output (to_torch lib) out))"
    using Some eager by (simp add: dispatch_def case_prod_beta)
  have por: "rel_args_tree (rel_py_value tol_t (=) (=))
               (process_output (to_torch lib) x) (process_output (to_torch lib) y)"
    if "rel_args_tree (rel_py_value (=) tol_f (=)) x y"
    for x y :: "('t, 'f, 'o) py_value args_tree"
    using that conv refl by (rule process_output_rel)
  from r show ?thesis
    unfolding dg de
    by (cases "graph_call lib g ?a ?k"; cases "super_method ?a ?k") (simp_all add: por)
qed

lemma load_graph_frame:
  assumes "DeplayableModule_load_graph lib m fs file_path device = Inr m'"
  shows "use_graph m' = use_graph m \<and> of_md m' = of_md m"
proof (cases "dpl_graph m")
  case None
  with assms show ?thesis by (simp add: DeplayableModule_load_graph_def)
next
  case (Some g)
  with assms show ?thesis
    by (cases "UNetGraph_warmup_with_load lib g fs file_path device")
       (auto simp: DeplayableModule_load_graph_def)
qed

lemma warmup_with_load_frame:
  assumes "DeplayableModule_warmup_with_load lib m fs file_path device = Inr m'"
  shows "use_graph m' = use_graph m \<and> of_md m' = of_md m"
proof (cases "dpl_graph m")
  case None
  with assms show ?thesis by (simp add: DeplayableModule_warmup_with_load_def)
next
  case (Some g)
  with assms show ?thesis
    by (cases "UNetGraph_warmup_with_load lib g fs file_path device")
       (auto simp: DeplayableModule_warmup_with_load_def)
qed

text \<open>
  C6. Let \<open>tol_f\<close> and \<open>tol_t\<close> be the tolerances on oneflow and torch tensors, with
  \<open>to_torch\<close> carrying tensors within \<open>tol_f\<close> to tensors within \<open>tol_t\<close>, and \<open>tol_t\<close>
  reflexive. Suppose that, on the converted arguments, the compiled execution of the
  graph and the eager \<open>__call__\<close> of the wrapped module are equivalent: both raise the same
  exception, or they return structures of the same shape whose oneflow tensors are within
  \<open>tol_f\<close> and whose other leaves are equal. Then the module compiled with \<open>use_graph=True\<close>
  and the module compiled with \<open>use_graph=False\<close> are equivalent on the same arguments:
  both raise the same exception or return structures of the same shape whose torch tensors
  are within \<open>tol_t\<close> and whose other leaves are equal. The flag of a compiled module is the
  one it was compiled with, and \<open>load_graph\<close> and \<open>warmup_with_load\<close>, the only methods
  that return a changed module, leave the flag and the wrapped module as they are. Both
  modes take the same arguments: they are the same function of the model.
\<close>

theorem shim_transparency:
  fixes lib :: "('t, 'f, 'o, 'sd, 'dev, 'fs) oneflow"
    and torch2of :: "'m \<Rightarrow> ('t, 'f, 'o) py_value of_module"
  assumes conv: "\<And>x y. tol_f x y \<Longrightarrow> tol_t (to_torch lib x) (to_torch lib y)"
    and refl: "\<And>t. tol_t t t"
    and equiv: "\<And>eager.
       cls_call (torch2of torch_unet) = Some eager \<Longrightarrow>
       rel_sum (=) (rel_args_tree (rel_py_value (=) tol_f (=)))
         (graph_call lib
            (UNetGraph_init (case options ''size'' of Some s \<Rightarrow> s | None \<Rightarrow> 9)
               (torch2of torch_unet))
            (fst (process_input (from_torch lib) args kwargs))
            (snd (process_input (from_torch lib) args kwargs)))
         (eager (fst (process_input (from_torch lib) args kwargs))
            (snd (process_input (from_torch lib) args kwargs)))"
  shows
    "rel_sum (=) (rel_args_tree (rel_py_value tol_t (=) (=)))
       (DeplayableModule_call lib (oneflow_compile torch2of torch_unet True options) args kwargs)
       (DeplayableModule_call lib (oneflow_compile torch2of torch_unet False options) args kwargs) \<and>
     (\<forall>b. use_graph (oneflow_compile torch2of torch_unet b options
              :: (('t, 'f, 'o) py_value, 'sd) DeplayableModule) = b) \<and>
     (\<forall>m m' fs file_path device.
        DeplayableModule_load_graph lib m fs file_path device = Inr m' \<or>
        DeplayableModule_warmup_with_load lib m fs file_path device = Inr m' \<longrightarrow>
        use_graph m' = use_graph m \<and> of_md m' = of_md m)"
proof -
  let ?mg = "oneflow_compile torch2of torch_unet True options
               :: (('t, 'f, 'o) py_value, 'sd) DeplayableModule"
  let ?me = "oneflow_compile torch2of torch_unet False options
               :: (('t, 'f, 'o) py_value, 'sd) DeplayableModule"
  let ?g = "UNetGraph_init (case options ''size'' of Some s \<Rightarrow> s | None \<Rightarrow> 9)
              (torch2of torch_unet) :: (('t, 'f, 'o) py_value, 'sd) unet_graph"
  have g: "dpl_graph ?mg = Some ?g" "use_graph ?mg" and e: "\<not> use_graph ?me"
    and same: "of_md ?mg = torch2of torch_unet" "of_md ?me = torch2of torch_unet"
    by (simp_all add: oneflow_compile_def Let_def)
  have a: "rel_sum (=) (rel_args_tree (rel_py_value tol_t (=) (=)))
       (DeplayableModule_call lib ?mg args kwargs) (DeplayableModule_call lib ?me args kwargs)"
    unfolding DeplayableModule_call_def same
    using conv refl g e equiv by (rule dispatch_rel)
  have b: "\<forall>b. use_graph (oneflow_compile torch2of torch_unet b options
              :: (('t, 'f, 'o) py_value, 'sd) DeplayableModule) = b"
    by (simp add: oneflow_compile_def Let_def)
  have c: "\<forall>m m' fs file_path device.
        DeplayableModule_load_graph lib m fs file_path device = Inr m' \<or>
        DeplayableModule_warmup_with_load lib m fs file_path device = Inr m' \<longrightarrow>
        use_graph m' = use_graph m \<and> of_md m' = of_md m"
  proof (intro allI impI)
    fix m m' :: "(('t, 'f, 'o) py_value, 'sd) DeplayableModule"
      and fs :: 'fs and file_path :: string and device :: "'dev option"
    assume "DeplayableModule_load_graph lib m fs file_path device = Inr m' \<or>
            DeplayableModule_warmup_with_load lib m fs file_path device = Inr m'"
    then show "use_graph m' = use_graph m \<and> of_md m' = of_md m"
    proof
      assume "DeplayableModule_load_graph lib m fs file_path device = Inr m'"
      then show ?thesis by (rule load_graph_frame)
    next
      assume "DeplayableModule_warmup_with_load lib m fs file_path device = Inr m'"
      then show ?thesis by (rule warmup_with_load_frame)
    qed
  qed
  from a b c show ?thesis by (intro conjI)
qed

theorem shim_transparency_witness:
  "DeplayableModule_call ex_lib (oneflow_compile ex_torch2of () True Map.empty)
     [Leaf (TorchTensor 5)] [] = Inr (PyTuple [Leaf (TorchTensor 6)]) \<and>
   DeplayableModule_call ex_lib (oneflow_compile ex_torch2of () False Map.empty)
     [Leaf (TorchTensor 5)] [] = Inr (PyTuple [Leaf (TorchTensor 5)]) \<and>
   rel_sum (=) (rel_args_tree (rel_py_value within_one (=) (=)))
     (DeplayableModule_call ex_lib (oneflow_compile ex_torch2of () True Map.empty)
        [Leaf (TorchTensor 5)] [])
     (DeplayableModule_call ex_lib (oneflow_compile ex_torch2of () False Map.empty)
        [Leaf (TorchTensor 5)] [])"
proof -
  have conv: "\<And>x y. within_one x y \<Longrightarrow> within_one (to_torch ex_lib x) (to_torch ex_lib y)"
    by (simp add: ex_lib_def)
  have refl: "\<And>t. within_one t t"
    by (simp add: within_one_def)
  have equiv: "\<And>eager.
       cls_call (ex_torch2of ()) = Some eager \<Longrightarrow>
       rel_sum (=) (rel_args_tree (rel_py_value (=) within_one (=)))
         (graph_call ex_lib
            (UNetGraph_init (case Map.empty ''size'' of Some s \<Rightarrow> s | None \<Rightarrow> 9)
               (ex_torch2of ()))
            (fst (process_input (from_torch ex_lib) [Leaf (TorchTensor 5)] []))
            (snd (process_input (from_torch ex_lib) [Leaf (TorchTensor 5)] [])))
         (eager (fst (process_input (from_torch ex_lib) [Leaf (TorchTensor 5)] []))
            (snd (process_input (from_torch ex_lib) [Leaf (TorchTensor 5)] [])))"
    by (auto simp: ex_torch2of_def ex_module_def ex_lib_def UNetGraph_init_def process_input_def
        input_fn_def off_by_one_def within_one_def)
  have g: "DeplayableModule_call ex_lib (oneflow_compile ex_torch2of () True Map.empty)
             [Leaf (TorchTensor 5)] [] = Inr (PyTuple [Leaf (TorchTensor 6)])"
    by (simp add: DeplayableModule_call_def dispatch_def oneflow_compile_def Let_def
        ex_torch2of_def ex_module_def ex_lib_def UNetGraph_init_def process_input_def
        process_output_def input_fn_def output_fn_def off_by_one_def)
  have e: "DeplayableModule_call ex_lib (oneflow_compile ex_torch2of () False Map.empty)
             [Leaf (TorchTensor 5)] [] = Inr (PyTuple [Leaf (TorchTensor 5)])"
    by (simp add: DeplayableModule_call_def dispatch_def oneflow_compile_def Let_def
        ex_torch2of_def ex_module_def ex_lib_def process_input_def
        process_output_def input_fn_def output_fn_def)
  have r: "rel_sum (=) (rel_args_tree (rel_py_value within_one (=) (=)))
     (DeplayableModule_call ex_lib (oneflow_compile ex_torch2of () True Map.empty)
        [Leaf (TorchTensor 5)] [])
     (DeplayableModule_call ex_lib (oneflow_compile ex_torch2of () False Map.empty)
        [Leaf (TorchTensor 5)] [])"
    using conv refl equiv
    by (rule shim_transparency
              [where lib = ex_lib and torch2of = ex_torch2of and torch_unet = "()"
                 and options = Map.empty and args = "[Leaf (TorchTensor 5)]" and kwargs = "[]"
                 and tol_f = within_one and tol_t = within_one, THEN conjunct1])
  from g e r show ?thesis by (intro conjI)
qed

end
